theory Spec2Isabelle
  imports Complex_Main
begin

section \<open>Cells and the Python string primitives\<close>

text \<open>
  The workbook is read with \<^verbatim>\<open>dtype=str\<close>, so a cell of a DataFrame is either missing
  (pandas' NaN) or a string; the two internal columns \<^verbatim>\<open>__is_total_row\<close> and
  \<^verbatim>\<open>__possible_duplicate\<close> hold Python booleans.

  Strings are ASCII text (one \<^typ>\<open>char\<close> per character). The primitives below reproduce
  \<^verbatim>\<open>str.strip\<close>, \<^verbatim>\<open>str.lower\<close>, \<^verbatim>\<open>str.isdigit\<close> and the regular expression classes
  \<^verbatim>\<open>\s\<close> and \<^verbatim>\<open>\w\<close> on ASCII; bytes above 127 have no case and are neither
  whitespace nor word characters here.
\<close>

datatype cell = NaN | Str string | Flag bool

fun py_str :: "cell \<Rightarrow> string" where
  "py_str NaN = ''nan''"
| "py_str (Str s) = s"
| "py_str (Flag True) = ''True''"
| "py_str (Flag False) = ''False''"

definition is_space :: "char \<Rightarrow> bool" where
  "is_space c = (c \<in> set [CHR 0x09, CHR 0x0A, CHR 0x0B, CHR 0x0C, CHR 0x0D,
                             CHR 0x1C, CHR 0x1D, CHR 0x1E, CHR 0x1F, CHR 0x20])"

definition py_strip :: "string \<Rightarrow> string" where
  "py_strip s = rev (dropWhile is_space (rev (dropWhile is_space s)))"

definition lower_char :: "char \<Rightarrow> char" where
  "lower_char c =
     (case map_of (zip ''ABCDEFGHIJKLMNOPQRSTUVWXYZ'' ''abcdefghijklmnopqrstuvwxyz'') c of
        Some d \<Rightarrow> d
      | None \<Rightarrow> c)"

definition py_lower :: "string \<Rightarrow> string" where
  "py_lower s = map lower_char s"

definition is_digit :: "char \<Rightarrow> bool" where
  "is_digit c = (c \<in> set ''0123456789'')"

definition is_word :: "char \<Rightarrow> bool" where
  "is_word c =
     (c \<in> set ''abcdefghijklmnopqrstuvwxyzABCDEFGHIJKLMNOPQRSTUVWXYZ0123456789_'')"

text \<open>
  \<^verbatim>\<open>re.sub(r"\s+", "_", s)\<close>: every maximal run of whitespace becomes one underscore.
  The flag says whether the previous character belonged to the run being replaced.
\<close>

fun collapse_run :: "bool \<Rightarrow> string \<Rightarrow> string" where
  "collapse_run in_run [] = []"
| "collapse_run in_run (c # cs) =
     (if is_space c then (if in_run then collapse_run True cs else CHR ''_'' # collapse_run True cs)
      else c # collapse_run False cs)"

definition collapse_ws :: "string \<Rightarrow> string" where
  "collapse_ws s = collapse_run False s"

text \<open>\<^verbatim>\<open>str(n)\<close> for a non-negative integer.\<close>

definition digit_char :: "nat \<Rightarrow> char" where
  "digit_char d = ''0123456789'' ! d"

fun show_nat :: "nat \<Rightarrow> string" where
  "show_nat n = (if n < 10 then [digit_char n] else show_nat (n div 10) @ [digit_char (n mod 10)])"

declare show_nat.simps [simp del]

section \<open>Identifier Normalizer: \<^verbatim>\<open>normalise_headers\<close>\<close>

definition SQL_RESERVED_WORDS :: "string list" where
  "SQL_RESERVED_WORDS =
    [''all'', ''alter'', ''and'', ''any'', ''as'', ''asc'', ''between'', ''by'', ''case'', ''cast'',
     ''check'', ''column'', ''connect'', ''constraint'', ''create'', ''cross'', ''current'',
     ''current_date'', ''current_time'', ''current_timestamp'', ''database'', ''delete'',
     ''desc'', ''distinct'', ''drop'', ''else'', ''end'', ''exists'', ''false'', ''following'',
     ''for'', ''from'', ''full'', ''grant'', ''group'', ''having'', ''in'', ''increment'',
     ''inner'', ''insert'', ''intersect'', ''into'', ''is'', ''join'', ''lateral'', ''left'',
     ''like'', ''localtime'', ''localtimestamp'', ''minus'', ''natural'', ''not'', ''null'',
     ''of'', ''on'', ''or'', ''order'', ''organization'', ''outer'', ''over'', ''partition'',
     ''preceding'', ''primary'', ''range'', ''references'', ''revoke'', ''right'', ''rlike'',
     ''row'', ''rows'', ''sample'', ''select'', ''set'', ''some'', ''start'', ''table'', ''tablesample'',
     ''then'', ''to'', ''trigger'', ''true'', ''union'', ''unique'', ''update'', ''using'',
     ''values'', ''view'', ''when'', ''whenever'', ''where'', ''with'']"

text \<open>
  Step 1: \<^verbatim>\<open>astype(str)\<close>, strip, lower, whitespace runs to \<^verbatim>\<open>_\<close>, then every
  character outside \<^verbatim>\<open>\w\<close> removed.
\<close>

definition clean_header :: "cell \<Rightarrow> string" where
  "clean_header h = filter is_word (collapse_ws (py_lower (py_strip (py_str h))))"

text \<open>Step 2: empty headers become \<^verbatim>\<open>unnamed_col_N\<close>, with a counter of their own.\<close>

fun fill_unnamed :: "nat \<Rightarrow> string list \<Rightarrow> string list" where
  "fill_unnamed unnamed_counter [] = []"
| "fill_unnamed unnamed_counter (val # vals) =
     (if val = '''' \<or> val = ''nan''
      then (''unnamed_col_'' @ show_nat unnamed_counter) # fill_unnamed (unnamed_counter + 1) vals
      else val # fill_unnamed unnamed_counter vals)"

text \<open>Step 3: leading digit, reserved word, length.\<close>

definition sql_safe :: "string \<Rightarrow> string" where
  "sql_safe header =
     (let h1 = (if header \<noteq> [] \<and> is_digit (hd header) then ''col_'' @ header else header);
          h2 = (if h1 \<in> set SQL_RESERVED_WORDS then h1 @ ''_col'' else h1)
      in if length h2 > 255 then take 252 h2 @ ''...'' else h2)"

text \<open>
  Step 4: the loop over \<^verbatim>\<open>sql_safe_list\<close> with the dictionary \<^verbatim>\<open>seen\<close>, the list
  \<^verbatim>\<open>final_headers\<close> (returned in order) and \<^verbatim>\<open>duplicate_count\<close>.
\<close>

fun uniquify :: "(string \<rightharpoonup> nat) \<Rightarrow> string list \<Rightarrow> string list \<times> nat" where
  "uniquify seen [] = ([], 0)"
| "uniquify seen (header # rest) =
     (case seen header of
        Some k \<Rightarrow>
          (let new_header = header @ ''_'' @ show_nat (k + 1);
               new_header' = (if length new_header > 255 then take 252 new_header @ ''...''
                              else new_header);
               (final_headers, duplicate_count) = uniquify (seen(header \<mapsto> k + 1)) rest
           in (new_header' # final_headers, duplicate_count + 1))
      | None \<Rightarrow>
          (let (final_headers, duplicate_count) = uniquify (seen(header \<mapsto> 1)) rest
           in (header # final_headers, duplicate_count)))"

definition normalise_headers :: "cell list \<Rightarrow> string list \<times> nat" where
  "normalise_headers headers =
     uniquify Map.empty (map sql_safe (fill_unnamed 1 (map clean_header headers)))"

text \<open>The identifier shape \<^verbatim>\<open>^[a-z_][a-z0-9_]*$\<close>.\<close>

definition ident_start :: "char \<Rightarrow> bool" where
  "ident_start c = (c \<in> set ''abcdefghijklmnopqrstuvwxyz_'')"

definition ident_char :: "char \<Rightarrow> bool" where
  "ident_char c = (c \<in> set ''abcdefghijklmnopqrstuvwxyz0123456789_'')"

definition sql_identifier :: "string \<Rightarrow> bool" where
  "sql_identifier s = (case s of [] \<Rightarrow> False | c # cs \<Rightarrow> ident_start c \<and> list_all ident_char cs)"

section \<open>DataFrames\<close>

text \<open>
  A DataFrame is its list of column labels and its rows in order, each row carrying its index
  label. \<^verbatim>\<open>reset_index(drop=True)\<close> renumbers the labels from 0; \<^verbatim>\<open>dropna\<close> and
  \<^verbatim>\<open>drop\<close> keep the labels of the rows that stay.
\<close>

record dataframe =
  columns :: "string list"
  rows :: "(nat \<times> cell list) list"

definition df_empty :: "dataframe \<Rightarrow> bool" where
  "df_empty df = (rows df = [] \<or> columns df = [])"

definition reset_index :: "(nat \<times> cell list) list \<Rightarrow> (nat \<times> cell list) list" where
  "reset_index rs = zip [0..<length rs] (map snd rs)"

definition cell_at :: "cell list \<Rightarrow> nat \<Rightarrow> cell" where
  "cell_at r j = (if j < length r then r ! j else NaN)"

fun index_of :: "'a \<Rightarrow> 'a list \<Rightarrow> nat option" where
  "index_of x [] = None"
| "index_of x (y # ys) = (if x = y then Some 0 else map_option Suc (index_of x ys))"

text \<open>
  \<^verbatim>\<open>df[col]\<close> read as one Series: where the label occurs more than once the source takes
  the first column of that name (\<^verbatim>\<open>col_data.iloc[:, 0]\<close>).
\<close>

definition get_column :: "string \<Rightarrow> dataframe \<Rightarrow> cell list" where
  "get_column col df =
     (case index_of col (columns df) of
        None \<Rightarrow> []
      | Some j \<Rightarrow> map (\<lambda>(idx, r). cell_at r j) (rows df))"

text \<open>
  \<^verbatim>\<open>df[col] = series\<close>: every column labelled \<^verbatim>\<open>col\<close> receives the values; a label that
  is not a column yet is appended as a new last column.
\<close>

definition set_labelled :: "string list \<Rightarrow> string \<Rightarrow> cell \<Rightarrow> cell list \<Rightarrow> cell list" where
  "set_labelled cs col v r =
     map (\<lambda>j. if j < length cs \<and> cs ! j = col then v else r ! j) [0..<length r]"

definition assign_column :: "string \<Rightarrow> cell list \<Rightarrow> dataframe \<Rightarrow> dataframe" where
  "assign_column col vals df =
     (if col \<in> set (columns df)
      then df\<lparr>rows := map (\<lambda>((idx, r), v). (idx, set_labelled (columns df) col v r))
                            (zip (rows df) vals)\<rparr>
      else df\<lparr>columns := columns df @ [col],
              rows := map (\<lambda>((idx, r), v). (idx, r @ [v])) (zip (rows df) vals)\<rparr>)"

section \<open>The helpers \<^verbatim>\<open>safe_isna\<close>, \<^verbatim>\<open>safe_notna\<close>, \<^verbatim>\<open>safe_str_strip\<close>\<close>

fun safe_isna :: "cell \<Rightarrow> bool" where
  "safe_isna NaN = True"
| "safe_isna (Str s) = False"
| "safe_isna (Flag b) = False"

definition safe_notna :: "cell \<Rightarrow> bool" where
  "safe_notna val = (\<not> safe_isna val)"

definition safe_str_strip :: "cell \<Rightarrow> string" where
  "safe_str_strip val = py_strip (py_str val)"

text \<open>The test \<^verbatim>\<open>val_str == '' or val_str.lower() in ['nan', 'none', 'null']\<close>.\<close>

definition is_blank :: "string \<Rightarrow> bool" where
  "is_blank val_str = (val_str = [] \<or> py_lower val_str \<in> set [''nan'', ''none'', ''null''])"

section \<open>Context Filler: \<^verbatim>\<open>fill_down_context\<close>\<close>

text \<open>
  The loop over the rows of one context column. The column has been through
  \<^verbatim>\<open>astype(str)\<close>, so every value is a string; \<^verbatim>\<open>last_value\<close> starts as \<^verbatim>\<open>None\<close>.
\<close>

fun fill_loop :: "string option \<Rightarrow> string list \<Rightarrow> string list" where
  "fill_loop last_value [] = []"
| "fill_loop last_value (val # vals) =
     (let val_str = py_strip val in
      if is_blank val_str
      then (case last_value of Some l \<Rightarrow> l | None \<Rightarrow> val) # fill_loop last_value vals
      else val_str # fill_loop (Some val_str) vals)"

definition fill_down_series :: "cell list \<Rightarrow> cell list" where
  "fill_down_series series = map Str (fill_loop None (map py_str series))"

definition fill_one :: "string \<Rightarrow> dataframe \<Rightarrow> dataframe" where
  "fill_one col df_filled =
     (if col \<notin> set (columns df_filled) then df_filled
      else assign_column col (fill_down_series (get_column col df_filled)) df_filled)"

definition fill_down_context :: "dataframe \<Rightarrow> string list \<Rightarrow> dataframe" where
  "fill_down_context df context_columns =
     (if df_empty df \<or> context_columns = [] then df else fold fill_one context_columns df)"




section \<open>Python's \<^verbatim>\<open>int()\<close> and \<^verbatim>\<open>float()\<close> on text\<close>

text \<open>
  Both constructors strip surrounding whitespace and accept an optional sign. A run of digits
  may hold single underscores between digits (\<^verbatim>\<open>digit (["_"] digit)*\<close>). \<^verbatim>\<open>float\<close>
  accepts \<^verbatim>\<open>[digits][.digits][(e|E)[sign]digits]\<close> with at least one digit in the mantissa,
  and the words \<^verbatim>\<open>inf\<close>, \<^verbatim>\<open>infinity\<close> and \<^verbatim>\<open>nan\<close> in any letter case. Anything else
  raises \<^verbatim>\<open>ValueError\<close>, which is \<open>None\<close> here.
\<close>

definition dig_us :: "char \<Rightarrow> bool" where
  "dig_us c = (is_digit c \<or> c = CHR ''_'')"

fun adjacent_underscores :: "string \<Rightarrow> bool" where
  "adjacent_underscores (a # b # cs) =
     ((a = CHR ''_'' \<and> b = CHR ''_'') \<or> adjacent_underscores (b # cs))"
| "adjacent_underscores [a] = False"
| "adjacent_underscores [] = False"

definition digitpart :: "string \<Rightarrow> bool" where
  "digitpart s =
     (s \<noteq> [] \<and> list_all dig_us s \<and> is_digit (hd s) \<and> is_digit (last s)
      \<and> \<not> adjacent_underscores s)"

definition digit_value :: "char \<Rightarrow> nat" where
  "digit_value c = (case index_of c ''0123456789'' of Some d \<Rightarrow> d | None \<Rightarrow> 0)"

definition digits_value :: "string \<Rightarrow> nat" where
  "digits_value s = foldl (\<lambda>acc c. 10 * acc + digit_value c) 0 (filter is_digit s)"

definition strip_sign :: "string \<Rightarrow> bool \<times> string" where
  "strip_sign s =
     (case s of
        [] \<Rightarrow> (False, [])
      | c # cs \<Rightarrow> if c = CHR ''-'' then (True, cs)
                  else if c = CHR ''+'' then (False, cs) else (False, s))"

definition py_int :: "string \<Rightarrow> int option" where
  "py_int s =
     (let (neg, body) = strip_sign (py_strip s)
      in if digitpart body
         then Some (if neg then - int (digits_value body) else int (digits_value body))
         else None)"

text \<open>
  The decimal literal as mantissa and power of ten: \<open>Some (m, e)\<close> stands for
  \<open>m \<times> 10\<^sup>e\<close>.
\<close>

definition parse_decimal :: "string \<Rightarrow> (nat \<times> int) option" where
  "parse_decimal s =
     (let ip = takeWhile dig_us s;
          r1 = dropWhile dig_us s;
          (fp, r2) = (case r1 of
                        [] \<Rightarrow> ([], [])
                      | c # t \<Rightarrow> if c = CHR ''.'' then (takeWhile dig_us t, dropWhile dig_us t)
                                 else ([], r1));
          mantissa_ok = ((ip = [] \<or> digitpart ip) \<and> (fp = [] \<or> digitpart fp)
                         \<and> (ip \<noteq> [] \<or> fp \<noteq> []));
          exponent = (case r2 of
                        [] \<Rightarrow> Some 0
                      | c # t \<Rightarrow>
                          if c = CHR ''e'' \<or> c = CHR ''E''
                          then (let (neg, ds) = strip_sign t
                                in if digitpart ds
                                   then Some (if neg then - int (digits_value ds)
                                              else int (digits_value ds))
                                   else None)
                          else None)
      in if mantissa_ok
         then (case exponent of
                 None \<Rightarrow> None
               | Some e \<Rightarrow> Some (digits_value (ip @ fp), e - int (length (filter is_digit fp))))
         else None)"

datatype float_lit = LitInf | LitNaN | LitDec nat int

definition py_float_lit :: "string \<Rightarrow> (bool \<times> float_lit) option" where
  "py_float_lit s =
     (let (neg, body) = strip_sign (py_strip s)
      in if py_lower body \<in> set [''inf'', ''infinity''] then Some (neg, LitInf)
         else if py_lower body = ''nan'' then Some (neg, LitNaN)
         else (case parse_decimal body of
                 None \<Rightarrow> None
               | Some (m, e) \<Rightarrow> Some (neg, LitDec m e)))"

text \<open>\<^verbatim>\<open>float(s)\<close> returns rather than raises.\<close>

definition py_float_ok :: "string \<Rightarrow> bool" where
  "py_float_ok s = (py_float_lit s \<noteq> None)"

text \<open>
  The value of \<^verbatim>\<open>float(s)\<close>. CPython converts a decimal literal to the nearest binary64
  number, ties to the even significand: a finite value is a sign and a magnitude
  \<open>m \<times> 2\<^sup>e\<close> with \<open>m < 2\<^sup>5\<^sup>3\<close> and \<open>e \<ge> -1074\<close>, and a literal that rounds to
  \<open>2\<^sup>1\<^sup>0\<^sup>2\<^sup>4\<close> or more becomes an infinity.
\<close>

datatype pyfloat = Finite bool rat | Infinite | NotANumber

definition pow2 :: "int \<Rightarrow> rat" where
  "pow2 k = (if k \<ge> 0 then 2 ^ nat k else 1 / 2 ^ nat (- k))"

definition pow10 :: "int \<Rightarrow> rat" where
  "pow10 k = (if k \<ge> 0 then 10 ^ nat k else 1 / 10 ^ nat (- k))"

fun bitlen :: "nat \<Rightarrow> nat" where
  "bitlen n = (if n = 0 then 0 else Suc (bitlen (n div 2)))"

declare bitlen.simps [simp del]

definition floor_log2 :: "rat \<Rightarrow> int" where
  "floor_log2 q =
     (let (a, b) = quotient_of q;
          k = int (bitlen (nat a)) - int (bitlen (nat b))
      in if pow2 k \<le> q then k else k - 1)"

definition round_half_even :: "rat \<Rightarrow> int" where
  "round_half_even x =
     (let f = \<lfloor>x\<rfloor>; d = x - of_int f
      in if d < 1 / 2 then f else if d > 1 / 2 then f + 1 else if even f then f else f + 1)"

definition to_double :: "bool \<Rightarrow> rat \<Rightarrow> pyfloat" where
  "to_double neg q =
     (if q = 0 then Finite neg 0
      else let e = max (floor_log2 q - 52) (- 1074);
               m = round_half_even (q / pow2 e);
               v = of_int m * pow2 e
           in if v \<ge> 2 ^ 1024 then Infinite else Finite neg v)"

definition py_float :: "string \<Rightarrow> pyfloat option" where
  "py_float s =
     (case py_float_lit s of
        None \<Rightarrow> None
      | Some (neg, LitInf) \<Rightarrow> Some Infinite
      | Some (neg, LitNaN) \<Rightarrow> Some NotANumber
      | Some (neg, LitDec m e) \<Rightarrow> Some (to_double neg (of_nat m * pow10 e)))"

text \<open>
  \<^verbatim>\<open>int(x)\<close> of a float truncates toward zero; it raises \<^verbatim>\<open>OverflowError\<close> on an
  infinity and \<^verbatim>\<open>ValueError\<close> on a NaN.
\<close>

fun py_int_of_float :: "pyfloat \<Rightarrow> int option" where
  "py_int_of_float (Finite neg v) = Some (if neg then - \<lfloor>v\<rfloor> else \<lfloor>v\<rfloor>)"
| "py_int_of_float Infinite = None"
| "py_int_of_float NotANumber = None"

definition show_int :: "int \<Rightarrow> string" where
  "show_int i = (if i < 0 then CHR ''-'' # show_nat (nat (- i)) else show_nat (nat i))"

section \<open>SQL Sanitizer: \<^verbatim>\<open>sanitize_for_sql\<close>\<close>

datatype sql_type = INTEGER | FLOAT | DATE | TIMESTAMP_NTZ | VARCHAR

text \<open>
  Two library results are taken as parameters: the text \<^verbatim>\<open>str(x)\<close> of a finite float, and
  the ISO text \<^verbatim>\<open>standardize_dates\<close> obtains for a value from \<^verbatim>\<open>datetime.strptime\<close>,
  \<^verbatim>\<open>pandas.to_datetime\<close> and \<^verbatim>\<open>strftime\<close> (\<open>None\<close> when no parser accepts the value).
\<close>

record pylib =
  float_repr :: "bool \<Rightarrow> rat \<Rightarrow> string"
  date_iso :: "sql_type \<Rightarrow> string \<Rightarrow> string option"

definition null_literals :: "string list" where
  "null_literals = ['''', ''nan'', ''None'', ''null'', ''NULL'', ''NaN'', ''N/A'', ''n/a'']"

text \<open>\<^verbatim>\<open>Series.replace([...], pd.NA)\<close>: a cell equal to one of the listed values.\<close>

definition replace_null :: "cell \<Rightarrow> cell" where
  "replace_null val =
     (case val of Str s \<Rightarrow> if s \<in> set null_literals then NaN else val | _ \<Rightarrow> val)"

definition keep_char :: "char \<Rightarrow> bool" where
  "keep_char c =
     (let code = (of_char c :: nat)
      in if code < 32 then code \<in> set [9, 10, 13] else code \<noteq> 127)"

definition sanitize_string_value :: "cell \<Rightarrow> cell" where
  "sanitize_string_value val =
     (if safe_isna val then NaN
      else let result = filter keep_char (py_str val)
           in if py_strip result = [] then NaN else Str result)"

definition standardize_date :: "pylib \<Rightarrow> sql_type \<Rightarrow> cell \<Rightarrow> cell" where
  "standardize_date lib date_type val =
     (if safe_isna val then val
      else let val_str = py_strip (py_str val)
           in if is_blank val_str then NaN
              else (case date_iso lib date_type val_str of
                      None \<Rightarrow> NaN
                    | Some iso_text \<Rightarrow> Str iso_text))"

definition standardize_dates :: "pylib \<Rightarrow> cell list \<Rightarrow> sql_type \<Rightarrow> cell list" where
  "standardize_dates lib series date_type = map (standardize_date lib date_type) series"

text \<open>\<^verbatim>\<open>val_str.replace(',', '').replace('$', '').replace('%', '').strip()\<close>.\<close>

definition numeric_clean :: "string \<Rightarrow> string" where
  "numeric_clean val_str = py_strip (filter (\<lambda>c. c \<notin> set '',$%'') val_str)"

definition validate_numeric_value :: "pylib \<Rightarrow> sql_type \<Rightarrow> cell \<Rightarrow> cell" where
  "validate_numeric_value lib numeric_type val =
     (if safe_isna val then val
      else let val_str = py_strip (py_str val)
           in if is_blank val_str then NaN
              else (case py_float (numeric_clean val_str) of
                      None \<Rightarrow> NaN
                    | Some x \<Rightarrow>
                        if numeric_type = INTEGER
                        then (case py_int_of_float x of
                                None \<Rightarrow> NaN
                              | Some int_val \<Rightarrow> Str (show_int int_val))
                        else (case x of
                                Finite neg v \<Rightarrow> Str (float_repr lib neg v)
                              | Infinite \<Rightarrow> NaN
                              | NotANumber \<Rightarrow> NaN)))"

definition validate_numeric_values :: "pylib \<Rightarrow> cell list \<Rightarrow> sql_type \<Rightarrow> cell list" where
  "validate_numeric_values lib series numeric_type =
     map (validate_numeric_value lib numeric_type) series"

text \<open>The body of the loop of \<^verbatim>\<open>sanitize_for_sql\<close> for one data column.\<close>

definition sanitize_column :: "pylib \<Rightarrow> sql_type \<Rightarrow> cell list \<Rightarrow> cell list" where
  "sanitize_column lib recommended_type col =
     (let c1 = map replace_null col;
          c2 = (if recommended_type \<in> set [DATE, TIMESTAMP_NTZ]
                then standardize_dates lib c1 recommended_type else c1);
          c3 = (if recommended_type = VARCHAR then map sanitize_string_value c2 else c2)
      in if recommended_type \<in> set [INTEGER, FLOAT]
         then validate_numeric_values lib c3 recommended_type else c3)"

text \<open>The result of \<^verbatim>\<open>float\<close> is anything but a finite number: an exception, an infinity or a NaN.\<close>

definition not_finite :: "pyfloat option \<Rightarrow> bool" where
  "not_finite r = (case r of Some (Finite neg v) \<Rightarrow> False | _ \<Rightarrow> True)"

section \<open>Properties\<close>

subsection \<open>Identifier Normalizer\<close>

text \<open>
  Claim C1 (uniqueness of the normalised headers) does not hold of the code. The docstring of
  \<^verbatim>\<open>normalise_headers\<close> promises unique headers, but the loop only looks a header up in
  \<^verbatim>\<open>seen\<close> under its own spelling and never records the suffixed name it emits. For the
  header row \<^verbatim>\<open>["a", "a", "a_2"]\<close> the second \<^verbatim>\<open>a\<close> becomes \<^verbatim>\<open>a_2\<close>, and the
  third header, already spelled \<^verbatim>\<open>a_2\<close>, is new to \<^verbatim>\<open>seen\<close> and is emitted as it is:
  the output holds \<^verbatim>\<open>a_2\<close> twice.
\<close>

theorem normalise_headers_emits_duplicate:
  "normalise_headers [Str ''a'', Str ''a'', Str ''a_2''] = ([''a'', ''a_2'', ''a_2''], 1)
   \<and> \<not> distinct (fst (normalise_headers [Str ''a'', Str ''a'', Str ''a_2'']))"
  by code_simp

text \<open>
  Claim C2 (every output matches \<^verbatim>\<open>^[a-z_][a-z0-9_]*$\<close>) does not hold of the code
  either. The docstring promises names without special characters, but a header longer than
  255 characters is cut to 252 characters and the marker \<^verbatim>\<open>...\<close> is appended; the dots are
  not identifier characters. A header of 256 letters \<^verbatim>\<open>a\<close> comes out as 252 letters
  followed by three dots.
\<close>

theorem normalise_headers_truncation_not_identifier:
  "normalise_headers [Str (replicate 256 CHR ''a'')] = ([replicate 252 CHR ''a'' @ ''...''], 0)
   \<and> \<not> sql_identifier (hd (fst (normalise_headers [Str (replicate 256 CHR ''a'')])))
   \<and> length (hd (fst (normalise_headers [Str (replicate 256 CHR ''a'')]))) = 255"
  by code_simp

subsection \<open>Context Filler\<close>















subsection \<open>SQL Sanitizer\<close>

text \<open>
  Claim C5 (every case variant of the missing-like literals becomes null) does not hold of the
  code. \<^verbatim>\<open>sanitize_for_sql\<close> calls \<^verbatim>\<open>Series.replace\<close> with the exact spellings
  \<^verbatim>\<open>''\<close>, \<^verbatim>\<open>nan\<close>, \<^verbatim>\<open>None\<close>, \<^verbatim>\<open>null\<close>, \<^verbatim>\<open>NULL\<close>, \<^verbatim>\<open>NaN\<close>, \<^verbatim>\<open>N/A\<close> and
  \<^verbatim>\<open>n/a\<close>: the list attempts the case variants and misses most of them, while the sibling
  functions \<^verbatim>\<open>standardize_dates\<close> and \<^verbatim>\<open>validate_numeric_values\<close> compare
  \<^verbatim>\<open>val_str.lower()\<close>. In a column of recommended type VARCHAR nothing else maps text to
  null, so \<^verbatim>\<open>NONE\<close>, \<^verbatim>\<open>Null\<close> and \<^verbatim>\<open>none\<close> are exported as text, next to
  \<^verbatim>\<open>NULL\<close>, \<^verbatim>\<open>NaN\<close>, \<^verbatim>\<open>N/A\<close> and the empty string, which become null.
\<close>

theorem sanitize_varchar_keeps_case_variants:
  "sanitize_column lib VARCHAR
     [Str ''NONE'', Str ''Null'', Str ''NULL'', Str ''NaN'', Str ''N/A'', Str '''', Str ''none'']
   = [Str ''NONE'', Str ''Null'', NaN, NaN, NaN, NaN, Str ''none'']"
  by code_simp

text \<open>
  The rest of this subsection is about columns of recommended type INTEGER. The two decimal
  texts used below are converted by hand through the steps of \<^const>\<open>to_double\<close>.
\<close>

lemma lit_127: "py_float_lit (numeric_clean (py_strip ''12.7'')) = Some (False, LitDec 127 (- 1))"
  by code_simp

lemma log_127: "floor_log2 (127 / 10) = 3"
  by code_simp

lemma round_127: "round_half_even ((127 / 10) / pow2 (- 49)) = 7149464408450662"
  by code_simp

lemma to_double_eval:
  assumes "q \<noteq> 0" "floor_log2 q = k" "max (k - 52) (- 1074) = e"
    and "round_half_even (q / pow2 e) = m" "of_int m * pow2 e = v" "v < 2 ^ 1024"
  shows "to_double neg q = Finite neg v"
  using assms unfolding to_double_def Let_def by simp

lemma double_127: "to_double False (127 / 10) = Finite False (3574732204225331 / 281474976710656)"
proof (rule to_double_eval)
  show "floor_log2 (127 / 10) = 3" by (rule log_127)
  show "max (3 - 52) (- 1074) = (- 49 :: int)" by simp
  show "round_half_even (127 / 10 / pow2 (- 49)) = 7149464408450662" by (rule round_127)
  show "of_int 7149464408450662 * pow2 (- 49) = (3574732204225331 / 281474976710656 :: rat)"
    by (simp add: pow2_def)
qed simp_all

lemma float_127: "py_float (numeric_clean (py_strip ''12.7'')) = Some (Finite False (3574732204225331 / 281474976710656))"
  by (simp add: py_float_def lit_127 pow10_def double_127)

lemma floor_127: "\<lfloor>3574732204225331 / 281474976710656 :: rat\<rfloor> = 12"
  by (rule floor_unique) simp_all

lemma lit_1234: "py_float_lit (numeric_clean (py_strip '' $1,234.5 '')) = Some (False, LitDec 12345 (- 1))"
  by code_simp

lemma log_1234: "floor_log2 (2469 / 2) = 10"
  by code_simp

lemma round_1234: "round_half_even ((2469 / 2) / pow2 (- 42)) = 5429388417957888"
  by code_simp

lemma double_1234: "to_double False (2469 / 2) = Finite False (2469 / 2)"
proof (rule to_double_eval)
  show "floor_log2 (2469 / 2) = 10" by (rule log_1234)
  show "max (10 - 52) (- 1074) = (- 42 :: int)" by simp
  show "round_half_even (2469 / 2 / pow2 (- 42)) = 5429388417957888" by (rule round_1234)
  show "of_int 5429388417957888 * pow2 (- 42) = (2469 / 2 :: rat)"
    by (simp add: pow2_def)
qed simp_all

lemma float_1234: "py_float (numeric_clean (py_strip '' $1,234.5 '')) = Some (Finite False (2469 / 2))"
  by (simp add: py_float_def lit_1234 pow10_def double_1234)

lemma floor_1234: "\<lfloor>2469 / 2 :: rat\<rfloor> = 1234"
  by (rule floor_unique) simp_all

lemma show_1234: "show_int 1234 = ''1234''"
  by code_simp

lemma show_12: "show_int 12 = ''12''"
  by code_simp


lemma py_lower_Cons:
  "py_lower t = b # u \<longleftrightarrow> (\<exists>a r. t = a # r \<and> lower_char a = b \<and> py_lower r = u)"
  by (cases t) (auto simp: py_lower_def)

lemma py_lower_Nil: "py_lower t = [] \<longleftrightarrow> t = []"
  by (simp add: py_lower_def)

lemma lower_char_letter:
  "lower_char c = CHR ''n'' \<Longrightarrow> c = CHR ''n'' \<or> c = CHR ''N''"
  "lower_char c = CHR ''a'' \<Longrightarrow> c = CHR ''a'' \<or> c = CHR ''A''"
  "lower_char c = CHR ''o'' \<Longrightarrow> c = CHR ''o'' \<or> c = CHR ''O''"
  "lower_char c = CHR ''e'' \<Longrightarrow> c = CHR ''e'' \<or> c = CHR ''E''"
  "lower_char c = CHR ''u'' \<Longrightarrow> c = CHR ''u'' \<or> c = CHR ''U''"
  "lower_char c = CHR ''l'' \<Longrightarrow> c = CHR ''l'' \<or> c = CHR ''L''"
  by (auto simp: lower_char_def split: if_splits)

lemma lower_nan:
  assumes "py_lower t = ''nan''"
  shows "t \<in> set [''nan'', ''naN'', ''nAn'', ''nAN'', ''Nan'', ''NaN'', ''NAn'', ''NAN'']"
proof -
  from assms obtain a b c where t: "t = [a, b, c]"
    and l: "lower_char a = CHR ''n''" "lower_char b = CHR ''a''" "lower_char c = CHR ''n''"
    by (auto simp: py_lower_Cons py_lower_Nil)
  from l(1) have "a = CHR ''n'' \<or> a = CHR ''N''" by (rule lower_char_letter)
  moreover from l(2) have "b = CHR ''a'' \<or> b = CHR ''A''" by (rule lower_char_letter)
  moreover from l(3) have "c = CHR ''n'' \<or> c = CHR ''N''" by (rule lower_char_letter)
  ultimately show ?thesis unfolding t by (elim disjE) simp_all
qed

lemma lower_none:
  assumes "py_lower t = ''none''"
  shows "t \<in> set [''none'', ''nonE'', ''noNe'', ''noNE'', ''nOne'', ''nOnE'', ''nONe'', ''nONE'',
                   ''None'', ''NonE'', ''NoNe'', ''NoNE'', ''NOne'', ''NOnE'', ''NONe'', ''NONE'']"
proof -
  from assms obtain a b c d where t: "t = [a, b, c, d]"
    and l: "lower_char a = CHR ''n''" "lower_char b = CHR ''o''" "lower_char c = CHR ''n''"
           "lower_char d = CHR ''e''"
    by (auto simp: py_lower_Cons py_lower_Nil)
  from l(1) have "a = CHR ''n'' \<or> a = CHR ''N''" by (rule lower_char_letter)
  moreover from l(2) have "b = CHR ''o'' \<or> b = CHR ''O''" by (rule lower_char_letter)
  moreover from l(3) have "c = CHR ''n'' \<or> c = CHR ''N''" by (rule lower_char_letter)
  moreover from l(4) have "d = CHR ''e'' \<or> d = CHR ''E''" by (rule lower_char_letter)
  ultimately show ?thesis unfolding t by (elim disjE) simp_all
qed

lemma lower_null:
  assumes "py_lower t = ''null''"
  shows "t \<in> set [''null'', ''nulL'', ''nuLl'', ''nuLL'', ''nUll'', ''nUlL'', ''nULl'', ''nULL'',
                   ''Null'', ''NulL'', ''NuLl'', ''NuLL'', ''NUll'', ''NUlL'', ''NULl'', ''NULL'']"
proof -
  from assms obtain a b c d where t: "t = [a, b, c, d]"
    and l: "lower_char a = CHR ''n''" "lower_char b = CHR ''u''" "lower_char c = CHR ''l''"
           "lower_char d = CHR ''l''"
    by (auto simp: py_lower_Cons py_lower_Nil)
  from l(1) have "a = CHR ''n'' \<or> a = CHR ''N''" by (rule lower_char_letter)
  moreover from l(2) have "b = CHR ''u'' \<or> b = CHR ''U''" by (rule lower_char_letter)
  moreover from l(3) have "c = CHR ''l'' \<or> c = CHR ''L''" by (rule lower_char_letter)
  moreover from l(4) have "d = CHR ''l'' \<or> d = CHR ''L''" by (rule lower_char_letter)
  ultimately show ?thesis unfolding t by (elim disjE) simp_all
qed

lemma nan_texts_not_finite:
  "list_all (\<lambda>t. not_finite (py_float (numeric_clean t)))
     [''nan'', ''naN'', ''nAn'', ''nAN'', ''Nan'', ''NaN'', ''NAn'', ''NAN'']"
  by code_simp

lemma none_texts_not_finite:
  "list_all (\<lambda>t. not_finite (py_float (numeric_clean t)))
     [''none'', ''nonE'', ''noNe'', ''noNE'', ''nOne'', ''nOnE'', ''nONe'', ''nONE'',
      ''None'', ''NonE'', ''NoNe'', ''NoNE'', ''NOne'', ''NOnE'', ''NONe'', ''NONE'']"
  by code_simp

lemma null_texts_not_finite:
  "list_all (\<lambda>t. not_finite (py_float (numeric_clean t)))
     [''null'', ''nulL'', ''nuLl'', ''nuLL'', ''nUll'', ''nUlL'', ''nULl'', ''nULL'',
      ''Null'', ''NulL'', ''NuLl'', ''NuLL'', ''NUll'', ''NUlL'', ''NULl'', ''NULL'']"
  by code_simp

lemma empty_text_not_finite: "not_finite (py_float (numeric_clean []))"
  by code_simp

lemma blank_not_finite:
  assumes "is_blank t"
  shows "not_finite (py_float (numeric_clean t))"
proof -
  from assms have "t = [] \<or> py_lower t = ''nan'' \<or> py_lower t = ''none'' \<or> py_lower t = ''null''"
    by (auto simp: is_blank_def)
  then show ?thesis
  proof (elim disjE)
    assume "t = []"
    then show ?thesis by (simp only: empty_text_not_finite)
  next
    assume "py_lower t = ''nan''"
    from lower_nan [OF this] nan_texts_not_finite show ?thesis
      unfolding list_all_iff by blast
  next
    assume "py_lower t = ''none''"
    from lower_none [OF this] none_texts_not_finite show ?thesis
      unfolding list_all_iff by blast
  next
    assume "py_lower t = ''null''"
    from lower_null [OF this] null_texts_not_finite show ?thesis
      unfolding list_all_iff by blast
  qed
qed

lemma null_literals_not_finite:
  "list_all (\<lambda>s. not_finite (py_float (numeric_clean (py_strip s)))) null_literals"
  by code_simp

lemma finite_parse_guards:
  assumes "py_float (numeric_clean (py_strip s)) = Some (Finite neg v)"
  shows "s \<notin> set null_literals" and "\<not> is_blank (py_strip s)"
proof -
  show "s \<notin> set null_literals"
    using null_literals_not_finite assms unfolding list_all_iff not_finite_def by force
  show "\<not> is_blank (py_strip s)"
    using blank_not_finite [of "py_strip s"] assms unfolding not_finite_def by force
qed

lemma sanitize_column_nth:
  "i < length col \<Longrightarrow>
   sanitize_column lib INTEGER col ! i = validate_numeric_value lib INTEGER (replace_null (col ! i))"
  by (simp add: sanitize_column_def validate_numeric_values_def Let_def)

lemma integer_value_truncated:
  assumes "py_float (numeric_clean (py_strip s)) = Some (Finite neg v)"
  shows "validate_numeric_value lib INTEGER (replace_null (Str s))
         = Str (show_int (if neg then - \<lfloor>v\<rfloor> else \<lfloor>v\<rfloor>))"
  using finite_parse_guards [OF assms] assms
  by (simp add: replace_null_def validate_numeric_value_def Let_def)

text \<open>
  Claim C10: in a column of recommended type INTEGER, a text that parses, once commas, currency
  and percent signs are removed, as a finite number is rewritten to the decimal text of that
  number truncated toward zero; where the number is not an integer the fraction is lost. A
  finite float is a sign \<open>neg\<close> and a magnitude \<open>v\<close>, so the truncated value is
  \<open>\<lfloor>v\<rfloor>\<close> with the sign put back. The cell is neither kept as it was nor replaced by
  null. The example of the claim: \<^verbatim>\<open>float("12.7")\<close> is the binary64 number
  \<open>3574732204225331 / 2\<^sup>4\<^sup>8\<close> and the cell becomes \<^verbatim>\<open>12\<close>.
\<close>

theorem sanitize_integer_truncates:
  "(\<forall>i<length col. \<forall>s neg v.
      col ! i = Str s \<and> py_float (numeric_clean (py_strip s)) = Some (Finite neg v)
      \<longrightarrow> sanitize_column lib INTEGER col ! i = Str (show_int (if neg then - \<lfloor>v\<rfloor> else \<lfloor>v\<rfloor>))
          \<and> (v \<notin> \<int> \<longrightarrow> rat_of_int \<lfloor>v\<rfloor> \<noteq> v))
   \<and> py_float (numeric_clean (py_strip ''12.7''))
       = Some (Finite False (3574732204225331 / 281474976710656))
   \<and> sanitize_column lib INTEGER [Str ''12.7''] = [Str ''12'']"
proof (intro conjI allI impI)
  fix i s neg v
  assume "i < length col"
    and "col ! i = Str s \<and> py_float (numeric_clean (py_strip s)) = Some (Finite neg v)"
  then show "sanitize_column lib INTEGER col ! i = Str (show_int (if neg then - \<lfloor>v\<rfloor> else \<lfloor>v\<rfloor>))"
    by (simp add: sanitize_column_nth integer_value_truncated)
next
  fix v :: rat
  assume "v \<notin> \<int>"
  then show "rat_of_int \<lfloor>v\<rfloor> \<noteq> v"
    by (metis Ints_of_int)
next
  show "py_float (numeric_clean (py_strip ''12.7''))
       = Some (Finite False (3574732204225331 / 281474976710656))"
    by (rule float_127)
next
  have "validate_numeric_value lib INTEGER (replace_null (Str ''12.7'')) = Str (show_int 12)"
    using integer_value_truncated [OF float_127, of lib] by (simp add: floor_127)
  then show "sanitize_column lib INTEGER [Str ''12.7''] = [Str ''12'']"
    by (simp add: sanitize_column_def validate_numeric_values_def Let_def show_12)
qed

text \<open>
  The theorem at the second cell of a column: \<^verbatim>\<open>" $1,234.5 "\<close> parses as the finite,
  non-integral number \<open>2469 / 2\<close> and comes out as \<^verbatim>\<open>1234\<close>.
\<close>

theorem sanitize_integer_truncates_witness:
  "sanitize_column \<lparr>float_repr = (\<lambda>neg v. ''''), date_iso = (\<lambda>t s. None)\<rparr> INTEGER
     [Str ''7'', Str '' $1,234.5 ''] ! 1 = Str ''1234''"
proof -
  note sanitize_integer_truncates
    [of "[Str ''7'', Str '' $1,234.5 '']" "\<lparr>float_repr = (\<lambda>neg v. ''''), date_iso = (\<lambda>t s. None)\<rparr>",
     THEN conjunct1, rule_format, of 1 "'' $1,234.5 ''" False "2469 / 2", THEN conjunct1]
  then show ?thesis
    by (simp add: float_1234 floor_1234 show_1234)
qed

end
